theory Spec2Isabelle
  imports Complex_Main
begin

section \<open>Data model\<close>

text \<open>
  The interfaces of \<^verbatim>\<open>api.service.ts\<close> and \<^verbatim>\<open>auth.service.ts\<close>. A TypeScript
  \<^verbatim>\<open>number\<close> that holds an identifier, a quantity or a stock level is an \<open>int\<close>; one
  that holds money is a \<open>real\<close> (the client never computes with either, it compares and
  forwards them). Record fields share one name space in HOL, so the fields of \<open>User\<close>,
  \<open>Product\<close> and \<open>Order\<close> carry a prefix; those of \<open>CartItem\<close> and \<open>Cart\<close> keep the
  names of the source.
\<close>

datatype role = RoleAdmin | RoleUser

definition role_string :: "role \<Rightarrow> string" where
  "role_string r = (case r of RoleAdmin \<Rightarrow> ''admin'' | RoleUser \<Rightarrow> ''user'')"

record User =
  u_id :: string
  u_username :: string
  u_role :: role
  u_token :: "string option"

record Product =
  p_id :: int
  p_name :: string
  p_description :: string
  p_price :: real
  p_stock :: int
  p_category :: string
  p_image_url :: string

record CartItem =
  cart_id :: int
  product_id :: int
  product_name :: string
  product_price :: real
  product_image :: string
  quantity :: int
  subtotal :: real
  available_stock :: int

record Cart =
  user_id :: string
  items :: "CartItem list"
  total_amount :: real
  item_count :: int

record OrderItem =
  oi_id :: int
  oi_order_id :: int
  oi_product_id :: int
  oi_product_name :: string
  oi_price :: real
  oi_quantity :: int
  oi_subtotal :: real

record Order =
  o_id :: int
  o_user_id :: string
  o_total_amount :: real
  o_status :: string
  o_created_at :: string
  o_updated_at :: string
  o_items :: "OrderItem list"

section \<open>Strings of numbers\<close>

text \<open>What a template literal \<^verbatim>\<open>${n}\<close> prints for an integral number.\<close>

fun digits :: "nat \<Rightarrow> string" where
  "digits n = (if n < 10 then [''0123456789'' ! n]
               else digits (n div 10) @ [''0123456789'' ! (n mod 10)])"

declare digits.simps [simp del]

definition show_int :: "int \<Rightarrow> string" where
  "show_int i = (if i < 0 then ''-'' @ digits (nat (- i)) else digits (nat i))"

section \<open>The HTTP exchange\<close>

datatype json =
    JNull
  | JBool bool
  | JNum real
  | JStr string
  | JArr "json list"
  | JObj "(string \<times> json) list"

datatype http_method = GET | POST | PUT | DELETE

text \<open>
  A call of \<^verbatim>\<open>HttpClient\<close>: the method, the URL, the body, and the
  \<^verbatim>\<open>headers\<close> option the caller passes (empty when the caller passes none).
\<close>

record http_request =
  req_method :: http_method
  req_url :: string
  req_body :: "json option"
  req_headers :: "(string \<times> string) list"

text \<open>
  A non-2xx answer, as the error callbacks see it: \<^verbatim>\<open>error.error\<close> is the parsed
  response body (absent when there is none) and \<^verbatim>\<open>error.error.error\<close> its
  \<^verbatim>\<open>error\<close> field, the message of the server.
\<close>

record ErrorBody =
  eb_error :: "string option"

record HttpErrorResponse =
  err_status :: nat
  err_error :: "ErrorBody option"

text \<open>
  A 2xx body, typed as the call site types it: \<^verbatim>\<open>http.get<Cart>\<close> reads a cart,
  \<^verbatim>\<open>http.get<Product[]>\<close> a list of products, \<^verbatim>\<open>http.get<Order[]>\<close> a list of
  orders, the login callback reads \<^verbatim>\<open>response.user\<close>, and every other callback
  ignores the body or keeps it as it is.
\<close>

datatype response_body =
    CartBody Cart
  | LoginBody User
  | ProductsBody "Product list"
  | OrdersBody "Order list"
  | OtherBody json

datatype http_response = Success response_body | Failure HttpErrorResponse

section \<open>Observable effects and the state of the client\<close>

text \<open>
  The subscribers of the four cart operations of \<^verbatim>\<open>CartService\<close>: each is the pair of
  \<^verbatim>\<open>next\<close>/\<^verbatim>\<open>error\<close> callbacks that one component method passes to
  \<^verbatim>\<open>subscribe\<close>, with the variables the callbacks close over.
\<close>

datatype observer =
    AddToCartObserver Product
  | UpdateQuantityObserver CartItem
  | RemoveItemObserver CartItem
  | ClearCartObserver

text \<open>The callbacks waiting for the answer of a request in flight.\<close>

datatype handler =
    LoadCartHandler
  | CartMutationHandler observer
  | LoginHandler
  | CheckoutHandler
  | ProductListLoadHandler
  | AdminProductsLoadHandler
  | SaveProductHandler bool
  | DeleteProductHandler
  | AdminOrdersLoadHandler
  | OrderHistoryLoadHandler
  | DashboardLoadHandler

text \<open>
  Everything the client does that is visible outside it, in the order it happens: a
  request handed to \<^verbatim>\<open>HttpClient\<close>, a snapshot pushed to the subscribers of
  \<^verbatim>\<open>cart$\<close>, a call of \<^verbatim>\<open>snackBar.open(message, action, {duration})\<close>,
  \<^verbatim>\<open>console.error\<close>, \<^verbatim>\<open>console.log\<close>, \<^verbatim>\<open>router.navigate\<close>, the three
  notifications of the observer of a cart operation, and \<^verbatim>\<open>dialogRef.close\<close>.
\<close>

datatype event =
    HttpSent http_request
  | CartEmitted Cart
  | SnackBar string string nat
  | ConsoleError string HttpErrorResponse
  | ConsoleLog string
  | Navigate string
  | ObserverNext
  | ObserverComplete
  | ObserverError HttpErrorResponse
  | DialogClose bool

text \<open>
  The fields of the view components that the callbacks of their requests write:
  \<^verbatim>\<open>ProductListComponent\<close>, \<^verbatim>\<open>AdminProductsComponent\<close>,
  \<^verbatim>\<open>ProductFormComponent\<close>, \<^verbatim>\<open>AdminOrdersComponent\<close>,
  \<^verbatim>\<open>OrderHistoryComponent\<close> and \<^verbatim>\<open>AdminDashboardComponent\<close>, each field
  under the name of its component. \<^verbatim>\<open>dashboardData\<close> is typed \<^verbatim>\<open>any\<close> and holds
  whatever body the server sent.
\<close>

record view_state =
  productList_products :: "Product list"
  productList_filteredProducts :: "Product list"
  productList_categories :: "string list"
  productList_loading :: bool
  adminProducts_products :: "Product list"
  adminProducts_filteredProducts :: "Product list"
  adminProducts_categories :: "string list"
  adminProducts_loading :: bool
  productForm_loading :: bool
  adminOrders_orders :: "Order list"
  adminOrders_filteredOrders :: "Order list"
  adminOrders_loading :: bool
  orderHistory_orders :: "Order list"
  orderHistory_loading :: bool
  dashboardData :: response_body
  dashboard_loading :: bool

record world =
  currentUserSubject :: "User option"
  localStorage_currentUser :: "User option"
  cartSubject :: Cart
  pending :: "(http_request \<times> handler) list"
  trace :: "event list"
  updating :: "int \<rightharpoonup> bool"
  cart_loading :: bool
  processing :: bool
  login_loading :: bool
  views :: view_state

definition emit :: "event \<Rightarrow> world \<Rightarrow> world" where
  "emit e w = w\<lparr>trace := trace w @ [e]\<rparr>"

text \<open>
  Subscribing to an \<^verbatim>\<open>HttpClient\<close> observable sends the request; the answer comes in
  a later turn of the event loop, so the callbacks are parked with the request.
\<close>

definition http_subscribe :: "http_request \<Rightarrow> handler \<Rightarrow> world \<Rightarrow> world" where
  "http_subscribe r h w = emit (HttpSent r) (w\<lparr>pending := pending w @ [(r, h)]\<rparr>)"

section \<open>AuthService\<close>

definition empty_cart :: Cart where
  "empty_cart = \<lparr>user_id = '''', items = [], total_amount = 0, item_count = 0\<rparr>"

text \<open>The field initialisers of the view components.\<close>

definition initial_views :: view_state where
  "initial_views =
     \<lparr>productList_products = [], productList_filteredProducts = [],
      productList_categories = [], productList_loading = True,
      adminProducts_products = [], adminProducts_filteredProducts = [],
      adminProducts_categories = [], adminProducts_loading = True,
      productForm_loading = False,
      adminOrders_orders = [], adminOrders_filteredOrders = [], adminOrders_loading = True,
      orderHistory_orders = [], orderHistory_loading = True,
      dashboardData =
        OtherBody (JObj [(''total_products'', JNum 0), (''total_orders'', JNum 0),
                         (''total_revenue'', JNum 0), (''low_stock_products'', JNum 0),
                         (''order_status_counts'', JObj []), (''recent_orders'', JArr []),
                         (''low_stock_items'', JArr [])]),
      dashboard_loading = True\<rparr>"

text \<open>
  The state after the services are constructed: the identity is the one found in
  \<^verbatim>\<open>localStorage\<close>, if any, the cart snapshot is the empty cart, and the fields of
  the components have their initial values.
\<close>

definition initial_world :: "User option \<Rightarrow> world" where
  "initial_world stored =
     \<lparr>currentUserSubject = stored, localStorage_currentUser = stored,
      cartSubject = empty_cart, pending = [], trace = [], updating = Map.empty,
      cart_loading = False, processing = False, login_loading = False,
      views = initial_views\<rparr>"

definition getCurrentUser :: "world \<Rightarrow> User option" where
  "getCurrentUser w = currentUserSubject w"

definition isLoggedIn :: "world \<Rightarrow> bool" where
  "isLoggedIn w = (currentUserSubject w \<noteq> None)"

definition isAdmin :: "world \<Rightarrow> bool" where
  "isAdmin w = (case currentUserSubject w of None \<Rightarrow> False | Some u \<Rightarrow> u_role u = RoleAdmin)"

definition AuthService_login :: "User \<Rightarrow> world \<Rightarrow> world" where
  "AuthService_login u w =
     (let w1 = w\<lparr>localStorage_currentUser := Some u\<rparr>;
          w2 = w1\<lparr>currentUserSubject := Some u\<rparr>
      in if u_role u = RoleAdmin then emit (Navigate ''/admin'') w2
         else emit (Navigate ''/user'') w2)"

definition AuthService_logout :: "world \<Rightarrow> world" where
  "AuthService_logout w =
     emit (Navigate ''/login'')
       (w\<lparr>localStorage_currentUser := None, currentUserSubject := None\<rparr>)"

section \<open>ApiService\<close>

definition baseUrl :: string where
  "baseUrl = ''http://localhost:5000/api''"

text \<open>
  \<^verbatim>\<open>user?.id || 'user1'\<close>: the guest value is taken when there is no user and also
  when the field is falsy, which for a string means empty. A role is never falsy.
\<close>

definition getHeaders :: "world \<Rightarrow> (string \<times> string) list" where
  "getHeaders w =
     (let user = getCurrentUser w in
      [(''Content-Type'', ''application/json''),
       (''X-User-ID'', case user of None \<Rightarrow> ''user1''
                       | Some u \<Rightarrow> if u_id u = [] then ''user1'' else u_id u),
       (''X-User-Role'', case user of None \<Rightarrow> ''user''
                       | Some u \<Rightarrow> role_string (u_role u))])"

definition ApiService_login :: "world \<Rightarrow> string \<Rightarrow> string \<Rightarrow> http_request" where
  "ApiService_login w username password =
     \<lparr>req_method = POST, req_url = baseUrl @ ''/auth/login'',
      req_body = Some (JObj [(''username'', JStr username), (''password'', JStr password)]),
      req_headers = []\<rparr>"



definition ApiService_getProducts :: "world \<Rightarrow> string option \<Rightarrow> string option \<Rightarrow> http_request" where
  "ApiService_getProducts w category search =
     (let params0 = [];
          params1 = (case category of None \<Rightarrow> params0
                     | Some c \<Rightarrow> if c = [] then params0
                                else params0 @ ''category='' @ c @ ''&'');
          params2 = (case search of None \<Rightarrow> params1
                     | Some s \<Rightarrow> if s = [] then params1
                                else params1 @ ''search='' @ s @ ''&'')
      in \<lparr>req_method = GET, req_url = baseUrl @ ''/products?'' @ params2,
          req_body = None, req_headers = getHeaders w\<rparr>)"


definition ApiService_createProduct :: "world \<Rightarrow> json \<Rightarrow> http_request" where
  "ApiService_createProduct w product =
     \<lparr>req_method = POST, req_url = baseUrl @ ''/products'',
      req_body = Some product, req_headers = getHeaders w\<rparr>"

definition ApiService_updateProduct :: "world \<Rightarrow> int \<Rightarrow> json \<Rightarrow> http_request" where
  "ApiService_updateProduct w ident product =
     \<lparr>req_method = PUT, req_url = baseUrl @ ''/products/'' @ show_int ident,
      req_body = Some product, req_headers = getHeaders w\<rparr>"

definition ApiService_deleteProduct :: "world \<Rightarrow> int \<Rightarrow> http_request" where
  "ApiService_deleteProduct w ident =
     \<lparr>req_method = DELETE, req_url = baseUrl @ ''/products/'' @ show_int ident,
      req_body = None, req_headers = getHeaders w\<rparr>"

definition ApiService_getCart :: "world \<Rightarrow> http_request" where
  "ApiService_getCart w =
     \<lparr>req_method = GET, req_url = baseUrl @ ''/cart'', req_body = None,
      req_headers = getHeaders w\<rparr>"

definition ApiService_addToCart :: "world \<Rightarrow> int \<Rightarrow> int \<Rightarrow> http_request" where
  "ApiService_addToCart w productId qty =
     \<lparr>req_method = POST, req_url = baseUrl @ ''/cart/add'',
      req_body = Some (JObj [(''product_id'', JNum (of_int productId)),
                             (''quantity'', JNum (of_int qty))]),
      req_headers = getHeaders w\<rparr>"

definition ApiService_updateCartItem :: "world \<Rightarrow> int \<Rightarrow> int \<Rightarrow> http_request" where
  "ApiService_updateCartItem w productId qty =
     \<lparr>req_method = PUT, req_url = baseUrl @ ''/cart/update'',
      req_body = Some (JObj [(''product_id'', JNum (of_int productId)),
                             (''quantity'', JNum (of_int qty))]),
      req_headers = getHeaders w\<rparr>"

definition ApiService_removeFromCart :: "world \<Rightarrow> int \<Rightarrow> http_request" where
  "ApiService_removeFromCart w productId =
     \<lparr>req_method = DELETE, req_url = baseUrl @ ''/cart/remove'',
      req_body = Some (JObj [(''product_id'', JNum (of_int productId))]),
      req_headers = getHeaders w\<rparr>"

definition ApiService_clearCart :: "world \<Rightarrow> http_request" where
  "ApiService_clearCart w =
     \<lparr>req_method = DELETE, req_url = baseUrl @ ''/cart/clear'', req_body = None,
      req_headers = getHeaders w\<rparr>"

definition ApiService_checkout :: "world \<Rightarrow> http_request" where
  "ApiService_checkout w =
     \<lparr>req_method = POST, req_url = baseUrl @ ''/orders/checkout'',
      req_body = Some (JObj []), req_headers = getHeaders w\<rparr>"

definition ApiService_getOrderHistory :: "world \<Rightarrow> http_request" where
  "ApiService_getOrderHistory w =
     \<lparr>req_method = GET, req_url = baseUrl @ ''/orders/history'', req_body = None,
      req_headers = getHeaders w\<rparr>"




definition ApiService_getDashboardData :: "world \<Rightarrow> http_request" where
  "ApiService_getDashboardData w =
     \<lparr>req_method = GET, req_url = baseUrl @ ''/admin/dashboard'', req_body = None,
      req_headers = getHeaders w\<rparr>"





section \<open>CartService\<close>

definition getCurrentCart :: "world \<Rightarrow> Cart" where
  "getCurrentCart w = cartSubject w"

definition getCartItemCount :: "world \<Rightarrow> int" where
  "getCartItemCount w = item_count (cartSubject w)"

definition loadCart :: "world \<Rightarrow> world" where
  "loadCart w = http_subscribe (ApiService_getCart w) LoadCartHandler w"

text \<open>The two callbacks of \<^verbatim>\<open>loadCart\<close>.\<close>

definition loadCart_next :: "Cart \<Rightarrow> world \<Rightarrow> world" where
  "loadCart_next c w = emit (CartEmitted c) (w\<lparr>cartSubject := c\<rparr>)"

definition loadCart_error :: "HttpErrorResponse \<Rightarrow> world \<Rightarrow> world" where
  "loadCart_error e w = emit (ConsoleError ''Error loading cart:'' e) w"

text \<open>
  The callbacks the components pass to the cart operations
  (\<^verbatim>\<open>ProductListComponent.addToCart\<close>, \<^verbatim>\<open>CartComponent.updateQuantity\<close>,
  \<^verbatim>\<open>removeItem\<close> and \<^verbatim>\<open>clearCart\<close>).
\<close>

fun observer_next :: "observer \<Rightarrow> world \<Rightarrow> world" where
  "observer_next (AddToCartObserver product) w =
     emit (SnackBar (p_name product @ '' added to cart'') ''Close'' 2000) w"
| "observer_next (UpdateQuantityObserver item) w =
     emit (SnackBar ''Cart updated'' ''Close'' 2000)
       (w\<lparr>updating := (updating w)(product_id item \<mapsto> False)\<rparr>)"
| "observer_next (RemoveItemObserver item) w =
     emit (SnackBar (product_name item @ '' removed from cart'') ''Close'' 2000)
       (w\<lparr>updating := (updating w)(product_id item \<mapsto> False)\<rparr>)"
| "observer_next ClearCartObserver w =
     emit (SnackBar ''Cart cleared'' ''Close'' 2000) (w\<lparr>cart_loading := False\<rparr>)"

fun observer_error :: "observer \<Rightarrow> HttpErrorResponse \<Rightarrow> world \<Rightarrow> world" where
  "observer_error (AddToCartObserver product) e w =
     emit (SnackBar ''Error adding product to cart'' ''Close'' 3000)
       (emit (ConsoleError ''Error adding to cart:'' e) w)"
| "observer_error (UpdateQuantityObserver item) e w =
     emit (SnackBar ''Error updating cart'' ''Close'' 3000)
       ((emit (ConsoleError ''Error updating cart:'' e) w)
          \<lparr>updating := (updating w)(product_id item \<mapsto> False)\<rparr>)"
| "observer_error (RemoveItemObserver item) e w =
     emit (SnackBar ''Error removing item'' ''Close'' 3000)
       ((emit (ConsoleError ''Error removing item:'' e) w)
          \<lparr>updating := (updating w)(product_id item \<mapsto> False)\<rparr>)"
| "observer_error ClearCartObserver e w =
     emit (SnackBar ''Error clearing cart'' ''Close'' 3000)
       ((emit (ConsoleError ''Error clearing cart:'' e) w)\<lparr>cart_loading := False\<rparr>)"

text \<open>
  The four operations wrap their request in the same pair of callbacks: on an answer,
  \<^verbatim>\<open>this.loadCart(); observer.next(response); observer.complete();\<close>, on a failure,
  \<^verbatim>\<open>observer.error(error)\<close>. The components pass no \<^verbatim>\<open>complete\<close> callback.
\<close>

definition mutation_next :: "observer \<Rightarrow> world \<Rightarrow> world" where
  "mutation_next obs w =
     (let w1 = loadCart w;
          w2 = observer_next obs (emit ObserverNext w1)
      in emit ObserverComplete w2)"

definition mutation_error :: "observer \<Rightarrow> HttpErrorResponse \<Rightarrow> world \<Rightarrow> world" where
  "mutation_error obs e w = observer_error obs e (emit (ObserverError e) w)"

definition CartService_addToCart :: "int \<Rightarrow> int \<Rightarrow> observer \<Rightarrow> world \<Rightarrow> world" where
  "CartService_addToCart productId qty obs w =
     http_subscribe (ApiService_addToCart w productId qty) (CartMutationHandler obs) w"

definition CartService_updateCartItem :: "int \<Rightarrow> int \<Rightarrow> observer \<Rightarrow> world \<Rightarrow> world" where
  "CartService_updateCartItem productId qty obs w =
     http_subscribe (ApiService_updateCartItem w productId qty) (CartMutationHandler obs) w"

definition CartService_removeFromCart :: "int \<Rightarrow> observer \<Rightarrow> world \<Rightarrow> world" where
  "CartService_removeFromCart productId obs w =
     http_subscribe (ApiService_removeFromCart w productId) (CartMutationHandler obs) w"

definition CartService_clearCart :: "observer \<Rightarrow> world \<Rightarrow> world" where
  "CartService_clearCart obs w =
     http_subscribe (ApiService_clearCart w) (CartMutationHandler obs) w"

section \<open>View components\<close>

subsection \<open>ProductListComponent\<close>

definition ProductList_addToCart :: "Product \<Rightarrow> world \<Rightarrow> world" where
  "ProductList_addToCart product w =
     (if p_stock product \<le> 0
      then emit (SnackBar ''Product is out of stock'' ''Close'' 3000) w
      else CartService_addToCart (p_id product) 1 (AddToCartObserver product) w)"

subsection \<open>Loading the product list\<close>

text \<open>
  \<^verbatim>\<open>Array.from(new Set(xs))\<close>: the distinct elements of \<open>xs\<close> in the order of their
  first occurrence.
\<close>

fun collect_distinct :: "string list \<Rightarrow> string list \<Rightarrow> string list" where
  "collect_distinct seen [] = seen"
| "collect_distinct seen (x # xs) =
     (if x \<in> set seen then collect_distinct seen xs else collect_distinct (seen @ [x]) xs)"

text \<open>
  \<^verbatim>\<open>extractCategories\<close>, which \<^verbatim>\<open>ProductListComponent\<close> and
  \<^verbatim>\<open>AdminProductsComponent\<close> each define with the same body: the categories of the
  products, the falsy (empty) ones left out, each once.
\<close>

definition extractCategories :: "Product list \<Rightarrow> string list" where
  "extractCategories ps = collect_distinct [] (filter (\<lambda>c. c \<noteq> []) (map p_category ps))"

definition ProductList_loadProducts :: "world \<Rightarrow> world" where
  "ProductList_loadProducts w =
     (let w1 = w\<lparr>views := (views w)\<lparr>productList_loading := True\<rparr>\<rparr>
      in http_subscribe (ApiService_getProducts w1 None None) ProductListLoadHandler w1)"

definition ProductList_loadProducts_next :: "Product list \<Rightarrow> world \<Rightarrow> world" where
  "ProductList_loadProducts_next ps w =
     w\<lparr>views := (views w)\<lparr>productList_products := ps, productList_filteredProducts := ps,
                             productList_categories := extractCategories ps,
                             productList_loading := False\<rparr>\<rparr>"

definition ProductList_loadProducts_error :: "HttpErrorResponse \<Rightarrow> world \<Rightarrow> world" where
  "ProductList_loadProducts_error e w =
     (emit (SnackBar ''Error loading products'' ''Close'' 3000)
        (emit (ConsoleError ''Error loading products:'' e) w))
       \<lparr>views := (views w)\<lparr>productList_loading := False\<rparr>\<rparr>"

subsection \<open>CartComponent\<close>

definition removeItem :: "CartItem \<Rightarrow> world \<Rightarrow> world" where
  "removeItem item w =
     CartService_removeFromCart (product_id item) (RemoveItemObserver item)
       (w\<lparr>updating := (updating w)(product_id item \<mapsto> True)\<rparr>)"

definition updateQuantity :: "CartItem \<Rightarrow> int \<Rightarrow> world \<Rightarrow> world" where
  "updateQuantity item newQuantity w =
     (if newQuantity < 1 then removeItem item w
      else if newQuantity > available_stock item
      then emit (SnackBar (''Only '' @ show_int (available_stock item) @ '' items available'')
                   ''Close'' 3000) w
      else CartService_updateCartItem (product_id item) newQuantity
             (UpdateQuantityObserver item)
             (w\<lparr>updating := (updating w)(product_id item \<mapsto> True)\<rparr>))"

text \<open>\<open>confirmed\<close> is the answer of the user to the \<^verbatim>\<open>confirm\<close> dialogue.\<close>

definition clearCart :: "bool \<Rightarrow> world \<Rightarrow> world" where
  "clearCart confirmed w =
     (if confirmed then CartService_clearCart ClearCartObserver (w\<lparr>cart_loading := True\<rparr>)
      else w)"

subsection \<open>LoginComponent\<close>

definition LoginComponent_onSubmit :: "bool \<Rightarrow> string \<Rightarrow> string \<Rightarrow> world \<Rightarrow> world" where
  "LoginComponent_onSubmit form_valid username password w =
     (if form_valid
      then http_subscribe (ApiService_login w username password) LoginHandler
             (w\<lparr>login_loading := True\<rparr>)
      else w)"

definition login_next :: "User \<Rightarrow> world \<Rightarrow> world" where
  "login_next response_user w =
     emit (SnackBar ''Login successful!'' ''Close'' 3000)
       (AuthService_login response_user (w\<lparr>login_loading := False\<rparr>))"

definition login_error :: "HttpErrorResponse \<Rightarrow> world \<Rightarrow> world" where
  "login_error e w =
     emit (SnackBar ''Login failed. Please check your credentials.'' ''Close'' 3000)
       (w\<lparr>login_loading := False\<rparr>)"

subsection \<open>CheckoutComponent\<close>

text \<open>
  \<open>this_cart\<close> is the component's own copy of the cart, \<open>form_valid\<close> the validity of
  its form.
\<close>

definition CheckoutComponent_onSubmit :: "bool \<Rightarrow> Cart \<Rightarrow> world \<Rightarrow> world" where
  "CheckoutComponent_onSubmit form_valid this_cart w =
     (if form_valid \<and> length (items this_cart) > 0
      then http_subscribe (ApiService_checkout w) CheckoutHandler (w\<lparr>processing := True\<rparr>)
      else w)"

definition checkout_next :: "world \<Rightarrow> world" where
  "checkout_next w =
     emit (Navigate ''/user/orders'')
       (emit (SnackBar ''Order placed successfully!'' ''Close'' 3000)
          (w\<lparr>processing := False\<rparr>))"

text \<open>
  \<^verbatim>\<open>if (error.error && error.error.error) errorMessage = error.error.error\<close>: an
  empty message is falsy and leaves the default.
\<close>

definition checkout_errorMessage :: "HttpErrorResponse \<Rightarrow> string" where
  "checkout_errorMessage e =
     (case err_error e of
        None \<Rightarrow> ''Failed to place order. Please try again.''
      | Some b \<Rightarrow>
          (case eb_error b of
             None \<Rightarrow> ''Failed to place order. Please try again.''
           | Some m \<Rightarrow> if m = [] then ''Failed to place order. Please try again.'' else m))"

definition checkout_error :: "HttpErrorResponse \<Rightarrow> world \<Rightarrow> world" where
  "checkout_error e w =
     emit (SnackBar (checkout_errorMessage e) ''Close'' 5000)
       (emit (ConsoleError ''Checkout error:'' e) (w\<lparr>processing := False\<rparr>))"

subsection \<open>OrderHistoryComponent\<close>

definition OrderHistory_loadOrders :: "world \<Rightarrow> world" where
  "OrderHistory_loadOrders w =
     (let w1 = w\<lparr>views := (views w)\<lparr>orderHistory_loading := True\<rparr>\<rparr>
      in http_subscribe (ApiService_getOrderHistory w1) OrderHistoryLoadHandler w1)"

definition OrderHistory_loadOrders_next :: "Order list \<Rightarrow> world \<Rightarrow> world" where
  "OrderHistory_loadOrders_next os w =
     w\<lparr>views := (views w)\<lparr>orderHistory_orders := os, orderHistory_loading := False\<rparr>\<rparr>"

definition OrderHistory_loadOrders_error :: "HttpErrorResponse \<Rightarrow> world \<Rightarrow> world" where
  "OrderHistory_loadOrders_error e w =
     (emit (SnackBar ''Error loading order history'' ''Close'' 3000)
        (emit (ConsoleError ''Error loading orders:'' e) w))
       \<lparr>views := (views w)\<lparr>orderHistory_loading := False\<rparr>\<rparr>"

subsection \<open>AdminDashboardComponent\<close>

definition loadDashboardData :: "world \<Rightarrow> world" where
  "loadDashboardData w =
     (let w1 = w\<lparr>views := (views w)\<lparr>dashboard_loading := True\<rparr>\<rparr>
      in http_subscribe (ApiService_getDashboardData w1) DashboardLoadHandler w1)"

definition loadDashboardData_next :: "response_body \<Rightarrow> world \<Rightarrow> world" where
  "loadDashboardData_next d w =
     w\<lparr>views := (views w)\<lparr>dashboardData := d, dashboard_loading := False\<rparr>\<rparr>"

definition loadDashboardData_error :: "HttpErrorResponse \<Rightarrow> world \<Rightarrow> world" where
  "loadDashboardData_error e w =
     (emit (SnackBar ''Error loading dashboard data'' ''Close'' 3000)
        (emit (ConsoleError ''Error loading dashboard data:'' e) w))
       \<lparr>views := (views w)\<lparr>dashboard_loading := False\<rparr>\<rparr>"

subsection \<open>ProductFormComponent\<close>

text \<open>
  \<open>data\<close> is the product the dialogue was opened with, if any (\<^verbatim>\<open>isEditMode\<close> is
  \<^verbatim>\<open>!!data\<close>), \<open>productData\<close> the value of the form.
\<close>

definition ProductForm_onSubmit :: "bool \<Rightarrow> Product option \<Rightarrow> json \<Rightarrow> world \<Rightarrow> world" where
  "ProductForm_onSubmit form_valid data productData w =
     (if form_valid
      then (let w1 = w\<lparr>views := (views w)\<lparr>productForm_loading := True\<rparr>\<rparr>;
                request = (case data of
                             Some d \<Rightarrow> ApiService_updateProduct w1 (p_id d) productData
                           | None \<Rightarrow> ApiService_createProduct w1 productData)
            in http_subscribe request (SaveProductHandler (data \<noteq> None)) w1)
      else w)"

definition ProductForm_onSubmit_next :: "bool \<Rightarrow> world \<Rightarrow> world" where
  "ProductForm_onSubmit_next isEditMode w =
     emit (DialogClose True)
       (emit (SnackBar (if isEditMode then ''Product updated successfully''
                        else ''Product created successfully'') ''Close'' 3000)
          (w\<lparr>views := (views w)\<lparr>productForm_loading := False\<rparr>\<rparr>))"

definition ProductForm_onSubmit_error :: "HttpErrorResponse \<Rightarrow> world \<Rightarrow> world" where
  "ProductForm_onSubmit_error e w =
     emit (SnackBar ''Error saving product'' ''Close'' 3000)
       (emit (ConsoleError ''Error saving product:'' e)
          (w\<lparr>views := (views w)\<lparr>productForm_loading := False\<rparr>\<rparr>))"

subsection \<open>AdminOrdersComponent\<close>

definition AdminOrders_loadOrders :: "world \<Rightarrow> world" where
  "AdminOrders_loadOrders w =
     (let w1 = w\<lparr>views := (views w)\<lparr>adminOrders_loading := True\<rparr>\<rparr>
      in http_subscribe (ApiService_getOrderHistory w1) AdminOrdersLoadHandler w1)"

definition AdminOrders_loadOrders_next :: "Order list \<Rightarrow> world \<Rightarrow> world" where
  "AdminOrders_loadOrders_next os w =
     w\<lparr>views := (views w)\<lparr>adminOrders_orders := os, adminOrders_filteredOrders := os,
                             adminOrders_loading := False\<rparr>\<rparr>"

definition AdminOrders_loadOrders_error :: "HttpErrorResponse \<Rightarrow> world \<Rightarrow> world" where
  "AdminOrders_loadOrders_error e w =
     (emit (SnackBar ''Error loading orders'' ''Close'' 3000)
        (emit (ConsoleError ''Error loading orders:'' e) w))
       \<lparr>views := (views w)\<lparr>adminOrders_loading := False\<rparr>\<rparr>"

definition AdminOrders_updateOrderStatus :: "Order \<Rightarrow> string \<Rightarrow> world \<Rightarrow> world" where
  "AdminOrders_updateOrderStatus order newStatus w =
     emit (SnackBar (''Order #'' @ show_int (o_id order) @ '' status updated to '' @ newStatus)
             ''Close'' 3000)
       (emit (ConsoleLog (''Update order '' @ show_int (o_id order) @ '' status to '' @ newStatus))
          w)"

subsection \<open>AdminProductsComponent\<close>

definition AdminProducts_loadProducts :: "world \<Rightarrow> world" where
  "AdminProducts_loadProducts w =
     (let w1 = w\<lparr>views := (views w)\<lparr>adminProducts_loading := True\<rparr>\<rparr>
      in http_subscribe (ApiService_getProducts w1 None None) AdminProductsLoadHandler w1)"

definition AdminProducts_loadProducts_next :: "Product list \<Rightarrow> world \<Rightarrow> world" where
  "AdminProducts_loadProducts_next ps w =
     w\<lparr>views := (views w)\<lparr>adminProducts_products := ps, adminProducts_filteredProducts := ps,
                             adminProducts_categories := extractCategories ps,
                             adminProducts_loading := False\<rparr>\<rparr>"

definition AdminProducts_loadProducts_error :: "HttpErrorResponse \<Rightarrow> world \<Rightarrow> world" where
  "AdminProducts_loadProducts_error e w =
     (emit (SnackBar ''Error loading products'' ''Close'' 3000)
        (emit (ConsoleError ''Error loading products:'' e) w))
       \<lparr>views := (views w)\<lparr>adminProducts_loading := False\<rparr>\<rparr>"

text \<open>\<open>confirmed\<close> is the answer of the user to the \<^verbatim>\<open>confirm\<close> dialogue.\<close>

definition deleteProduct :: "bool \<Rightarrow> Product \<Rightarrow> world \<Rightarrow> world" where
  "deleteProduct confirmed product w =
     (if confirmed
      then http_subscribe (ApiService_deleteProduct w (p_id product)) DeleteProductHandler w
      else w)"

definition deleteProduct_next :: "world \<Rightarrow> world" where
  "deleteProduct_next w =
     AdminProducts_loadProducts
       (emit (SnackBar ''Product deleted successfully'' ''Close'' 3000) w)"

definition deleteProduct_error :: "HttpErrorResponse \<Rightarrow> world \<Rightarrow> world" where
  "deleteProduct_error e w =
     emit (SnackBar ''Error deleting product'' ''Close'' 3000)
       (emit (ConsoleError ''Error deleting product:'' e) w)"

section \<open>Answers arriving\<close>

text \<open>
  The callbacks run when the answer arrives. A 2xx body that does not have the shape its
  call site is typed with is outside the typed program: \<open>None\<close>.
\<close>

fun handle :: "handler \<Rightarrow> http_response \<Rightarrow> world \<Rightarrow> world option" where
  "handle LoadCartHandler (Success (CartBody c)) w = Some (loadCart_next c w)"
| "handle LoadCartHandler (Success other) w = None"
| "handle LoadCartHandler (Failure e) w = Some (loadCart_error e w)"
| "handle (CartMutationHandler obs) (Success b) w = Some (mutation_next obs w)"
| "handle (CartMutationHandler obs) (Failure e) w = Some (mutation_error obs e w)"
| "handle LoginHandler (Success (LoginBody u)) w = Some (login_next u w)"
| "handle LoginHandler (Success other) w = None"
| "handle LoginHandler (Failure e) w = Some (login_error e w)"
| "handle CheckoutHandler (Success b) w = Some (checkout_next w)"
| "handle CheckoutHandler (Failure e) w = Some (checkout_error e w)"
| "handle ProductListLoadHandler (Success (ProductsBody ps)) w =
     Some (ProductList_loadProducts_next ps w)"
| "handle ProductListLoadHandler (Success other) w = None"
| "handle ProductListLoadHandler (Failure e) w = Some (ProductList_loadProducts_error e w)"
| "handle AdminProductsLoadHandler (Success (ProductsBody ps)) w =
     Some (AdminProducts_loadProducts_next ps w)"
| "handle AdminProductsLoadHandler (Success other) w = None"
| "handle AdminProductsLoadHandler (Failure e) w = Some (AdminProducts_loadProducts_error e w)"
| "handle (SaveProductHandler isEditMode) (Success b) w =
     Some (ProductForm_onSubmit_next isEditMode w)"
| "handle (SaveProductHandler isEditMode) (Failure e) w = Some (ProductForm_onSubmit_error e w)"
| "handle DeleteProductHandler (Success b) w = Some (deleteProduct_next w)"
| "handle DeleteProductHandler (Failure e) w = Some (deleteProduct_error e w)"
| "handle AdminOrdersLoadHandler (Success (OrdersBody os)) w =
     Some (AdminOrders_loadOrders_next os w)"
| "handle AdminOrdersLoadHandler (Success other) w = None"
| "handle AdminOrdersLoadHandler (Failure e) w = Some (AdminOrders_loadOrders_error e w)"
| "handle OrderHistoryLoadHandler (Success (OrdersBody os)) w =
     Some (OrderHistory_loadOrders_next os w)"
| "handle OrderHistoryLoadHandler (Success other) w = None"
| "handle OrderHistoryLoadHandler (Failure e) w = Some (OrderHistory_loadOrders_error e w)"
| "handle DashboardLoadHandler (Success b) w = Some (loadDashboardData_next b w)"
| "handle DashboardLoadHandler (Failure e) w = Some (loadDashboardData_error e w)"

text \<open>
  The answer to the \<open>i\<close>-th request in flight arrives: the request leaves the list and
  its callbacks run. Answers may come in any order.
\<close>

definition deliver :: "nat \<Rightarrow> http_response \<Rightarrow> world \<Rightarrow> world option" where
  "deliver i r w =
     (if i < length (pending w)
      then handle (snd (pending w ! i)) r
             (w\<lparr>pending := take i (pending w) @ drop (Suc i) (pending w)\<rparr>)
      else None)"

text \<open>The answer to the request sent last.\<close>

definition answer_last :: "http_response \<Rightarrow> world \<Rightarrow> world option" where
  "answer_last r w = (if pending w = [] then None else deliver (length (pending w) - 1) r w)"

section \<open>Runs of the client\<close>

datatype action =
    LoadCart
  | AddToCart Product
  | UpdateQuantity CartItem int
  | RemoveItem CartItem
  | ClearCart bool
  | LoginSubmit bool string string
  | Logout
  | CheckoutSubmit bool Cart
  | UpdateOrderStatus Order string
  | LoadProducts
  | LoadOrderHistory
  | LoadDashboard
  | SaveProduct bool "Product option" json
  | AdminLoadOrders
  | AdminLoadProducts
  | DeleteProduct bool Product
  | Deliver nat http_response

fun perform :: "action \<Rightarrow> world \<Rightarrow> world option" where
  "perform LoadCart w = Some (loadCart w)"
| "perform (AddToCart p) w = Some (ProductList_addToCart p w)"
| "perform (UpdateQuantity item q) w = Some (updateQuantity item q w)"
| "perform (RemoveItem item) w = Some (removeItem item w)"
| "perform (ClearCart b) w = Some (clearCart b w)"
| "perform (LoginSubmit v n p) w = Some (LoginComponent_onSubmit v n p w)"
| "perform Logout w = Some (AuthService_logout w)"
| "perform (CheckoutSubmit v c) w = Some (CheckoutComponent_onSubmit v c w)"
| "perform (UpdateOrderStatus ord s) w = Some (AdminOrders_updateOrderStatus ord s w)"
| "perform LoadProducts w = Some (ProductList_loadProducts w)"
| "perform LoadOrderHistory w = Some (OrderHistory_loadOrders w)"
| "perform LoadDashboard w = Some (loadDashboardData w)"
| "perform (SaveProduct v d p) w = Some (ProductForm_onSubmit v d p w)"
| "perform AdminLoadOrders w = Some (AdminOrders_loadOrders w)"
| "perform AdminLoadProducts w = Some (AdminProducts_loadProducts w)"
| "perform (DeleteProduct b p) w = Some (deleteProduct b p w)"
| "perform (Deliver i r) w = deliver i r w"

fun run :: "action list \<Rightarrow> world \<Rightarrow> world option" where
  "run [] w = Some w"
| "run (a # as) w = (case perform a w of None \<Rightarrow> None | Some w' \<Rightarrow> run as w')"

text \<open>The snapshots pushed to the subscribers of \<^verbatim>\<open>cart$\<close>, oldest first.\<close>

fun emitted_carts :: "event list \<Rightarrow> Cart list" where
  "emitted_carts [] = []"
| "emitted_carts (CartEmitted c # es) = c # emitted_carts es"
| "emitted_carts (e # es) = emitted_carts es"

text \<open>The requests handed to \<^verbatim>\<open>HttpClient\<close>, oldest first.\<close>

fun sent_requests :: "event list \<Rightarrow> http_request list" where
  "sent_requests [] = []"
| "sent_requests (HttpSent r # es) = r # sent_requests es"
| "sent_requests (e # es) = sent_requests es"

text \<open>The messages shown to the user, oldest first.\<close>

fun notifications :: "event list \<Rightarrow> string list" where
  "notifications [] = []"
| "notifications (SnackBar m a d # es) = m # notifications es"
| "notifications (e # es) = notifications es"

text \<open>The derivation the server applies to a cart: both totals are sums over the items.\<close>

definition cart_derived :: "Cart \<Rightarrow> bool" where
  "cart_derived c \<longleftrightarrow>
     item_count c = sum_list (map quantity (items c)) \<and>
     total_amount c = sum_list (map subtotal (items c))"

section \<open>The backend cart store\<close>

text \<open>
  Modelled from the spec: the backend that owns the cart (the API gateway and the
  services behind it) is not among the sources of the client. The spec describes it as
  a store of one cart per user whose items are a derived snapshot, recomputed on every
  mutation, with the total the sum of the item subtotals and the item count the sum of
  the quantities; \<^verbatim>\<open>GET /cart\<close> returns the cart, \<^verbatim>\<open>DELETE /cart/remove\<close> takes
  one product out of it and \<^verbatim>\<open>DELETE /cart/clear\<close> takes all of them out. Requests
  the spec says nothing precise about are not answered by this model (\<open>None\<close>).
\<close>

definition derive_cart :: "string \<Rightarrow> CartItem list \<Rightarrow> Cart" where
  "derive_cart uid its =
     \<lparr>user_id = uid, items = its,
      total_amount = sum_list (map subtotal its),
      item_count = sum_list (map quantity its)\<rparr>"

definition json_field :: "string \<Rightarrow> json \<Rightarrow> json option" where
  "json_field k j = (case j of JObj kvs \<Rightarrow> map_of kvs k | _ \<Rightarrow> None)"

definition server_remove :: "real \<Rightarrow> Cart \<Rightarrow> Cart" where
  "server_remove n c =
     derive_cart (user_id c) (filter (\<lambda>i. of_int (product_id i) \<noteq> n) (items c))"

definition serve :: "http_request \<Rightarrow> Cart \<Rightarrow> (http_response \<times> Cart) option" where
  "serve r c =
     (if req_method r = GET \<and> req_url r = baseUrl @ ''/cart''
      then Some (Success (CartBody c), c)
      else if req_method r = DELETE \<and> req_url r = baseUrl @ ''/cart/remove''
      then (case req_body r of
              None \<Rightarrow> None
            | Some b \<Rightarrow>
                (case json_field ''product_id'' b of
                   Some (JNum n) \<Rightarrow> Some (Success (OtherBody JNull), server_remove n c)
                 | _ \<Rightarrow> None))
      else if req_method r = DELETE \<and> req_url r = baseUrl @ ''/cart/clear''
      then Some (Success (OtherBody JNull), derive_cart (user_id c) [])
      else None)"

text \<open>
  Client and backend together: the backend answers the requests in flight, oldest
  first, until none is left. \<open>None\<close> when the fuel runs out first or a request has no
  modelled answer.
\<close>

fun settle :: "nat \<Rightarrow> Cart \<times> world \<Rightarrow> (Cart \<times> world) option" where
  "settle n (s, w) =
     (case pending w of
        [] \<Rightarrow> Some (s, w)
      | (r, h) # rest \<Rightarrow>
          (case n of
             0 \<Rightarrow> None
           | Suc m \<Rightarrow>
               (case serve r s of
                  None \<Rightarrow> None
                | Some (resp, s') \<Rightarrow>
                    (case deliver 0 resp w of
                       None \<Rightarrow> None
                     | Some w' \<Rightarrow> settle m (s', w')))))"

definition settled_cart :: "nat \<Rightarrow> Cart \<Rightarrow> world \<Rightarrow> Cart option" where
  "settled_cart n s w = map_option (\<lambda>(s', w'). getCurrentCart w') (settle n (s, w))"

section \<open>Concrete values\<close>

definition alice :: User where
  "alice = \<lparr>u_id = ''42'', u_username = ''alice'', u_role = RoleUser, u_token = None\<rparr>"

definition root_admin :: User where
  "root_admin = \<lparr>u_id = ''1'', u_username = ''root'', u_role = RoleAdmin, u_token = None\<rparr>"



definition plain_error :: HttpErrorResponse where
  "plain_error = \<lparr>err_status = 500, err_error = None\<rparr>"

definition mug :: Product where
  "mug = \<lparr>p_id = 5, p_name = ''Mug'', p_description = ''A mug'', p_price = 4,
          p_stock = 3, p_category = ''Home & Kitchen'', p_image_url = []\<rparr>"

definition sold_out_mug :: Product where
  "sold_out_mug = mug\<lparr>p_stock := 0\<rparr>"

text \<open>The scenario of the spec: productA, 2 at 10, and productB, 1 at 5.\<close>

definition productA :: CartItem where
  "productA = \<lparr>cart_id = 1, product_id = 101, product_name = ''productA'',
     product_price = 10, product_image = [], quantity = 2, subtotal = 20,
     available_stock = 8\<rparr>"

definition productB :: CartItem where
  "productB = \<lparr>cart_id = 1, product_id = 102, product_name = ''productB'',
     product_price = 5, product_image = [], quantity = 1, subtotal = 5,
     available_stock = 3\<rparr>"

definition scenario_cart :: Cart where
  "scenario_cart = \<lparr>user_id = ''user1'', items = [productA, productB],
     total_amount = 25, item_count = 3\<rparr>"

definition scenario_world :: world where
  "scenario_world = (initial_world None)\<lparr>cartSubject := scenario_cart\<rparr>"

text \<open>An item whose stock level the server reports as negative.\<close>

definition oversold :: CartItem where
  "oversold = productA\<lparr>available_stock := - 1\<rparr>"

definition order7 :: Order where
  "order7 = \<lparr>o_id = 7, o_user_id = ''42'', o_total_amount = 25, o_status = ''pending'',
     o_created_at = ''2024-01-01'', o_updated_at = ''2024-01-01'', o_items = []\<rparr>"

section \<open>Basic facts\<close>

lemma emit_fields [simp]:
  "trace (emit e w) = trace w @ [e]"
  "pending (emit e w) = pending w"
  "cartSubject (emit e w) = cartSubject w"
  "currentUserSubject (emit e w) = currentUserSubject w"
  "localStorage_currentUser (emit e w) = localStorage_currentUser w"
  "updating (emit e w) = updating w"
  "cart_loading (emit e w) = cart_loading w"
  "processing (emit e w) = processing w"
  "login_loading (emit e w) = login_loading w"
  "views (emit e w) = views w"
  by (simp_all add: emit_def)

lemma http_subscribe_fields [simp]:
  "trace (http_subscribe r h w) = trace w @ [HttpSent r]"
  "pending (http_subscribe r h w) = pending w @ [(r, h)]"
  "cartSubject (http_subscribe r h w) = cartSubject w"
  "currentUserSubject (http_subscribe r h w) = currentUserSubject w"
  "localStorage_currentUser (http_subscribe r h w) = localStorage_currentUser w"
  "updating (http_subscribe r h w) = updating w"
  "cart_loading (http_subscribe r h w) = cart_loading w"
  "processing (http_subscribe r h w) = processing w"
  "login_loading (http_subscribe r h w) = login_loading w"
  "views (http_subscribe r h w) = views w"
  by (simp_all add: http_subscribe_def)

lemma emitted_carts_append [simp]:
  "emitted_carts (xs @ ys) = emitted_carts xs @ emitted_carts ys"
  by (induction xs rule: emitted_carts.induct) simp_all

lemma sent_requests_append [simp]:
  "sent_requests (xs @ ys) = sent_requests xs @ sent_requests ys"
  by (induction xs rule: sent_requests.induct) simp_all

lemma notifications_append [simp]:
  "notifications (xs @ ys) = notifications xs @ notifications ys"
  by (induction xs rule: notifications.induct) simp_all


lemma observer_next_effect:
  "\<exists>m. trace (observer_next obs v) = trace v @ [SnackBar m ''Close'' 2000]"
  "pending (observer_next obs v) = pending v"
  "cartSubject (observer_next obs v) = cartSubject v"
  "currentUserSubject (observer_next obs v) = currentUserSubject v"
  "localStorage_currentUser (observer_next obs v) = localStorage_currentUser v"
  by (cases obs; simp)+

lemma observer_error_effect:
  "\<exists>l m. trace (observer_error obs e v) =
         trace v @ [ConsoleError l e, SnackBar m ''Close'' 3000]"
  "pending (observer_error obs e v) = pending v"
  "cartSubject (observer_error obs e v) = cartSubject v"
  "currentUserSubject (observer_error obs e v) = currentUserSubject v"
  "localStorage_currentUser (observer_error obs e v) = localStorage_currentUser v"
  by (cases obs; simp)+

lemma getHeaders_cong:
  "currentUserSubject w' = currentUserSubject w \<Longrightarrow> getHeaders w' = getHeaders w"
  by (simp add: getHeaders_def getCurrentUser_def)

lemma ApiService_getCart_cong:
  "currentUserSubject w' = currentUserSubject w \<Longrightarrow>
   ApiService_getCart w' = ApiService_getCart w"
  by (simp add: ApiService_getCart_def getHeaders_cong [of w' w])

lemma answer_last_subscribe:
  "answer_last r (http_subscribe q h w) = handle h r (emit (HttpSent q) w)"
  by (simp add: answer_last_def deliver_def http_subscribe_def emit_def nth_append)

lemma mutation_next_effect:
  "\<exists>m. trace (mutation_next obs v) =
         trace v @ [HttpSent (ApiService_getCart v), ObserverNext,
                    SnackBar m ''Close'' 2000, ObserverComplete]"
  "pending (mutation_next obs v) = pending v @ [(ApiService_getCart v, LoadCartHandler)]"
  "cartSubject (mutation_next obs v) = cartSubject v"
  "currentUserSubject (mutation_next obs v) = currentUserSubject v"
  "localStorage_currentUser (mutation_next obs v) = localStorage_currentUser v"
proof -
  let ?u = "emit ObserverNext (loadCart v)"
  obtain m where "trace (observer_next obs ?u) = trace ?u @ [SnackBar m ''Close'' 2000]"
    using observer_next_effect(1) by blast
  then show "\<exists>m. trace (mutation_next obs v) =
         trace v @ [HttpSent (ApiService_getCart v), ObserverNext,
                    SnackBar m ''Close'' 2000, ObserverComplete]"
    by (simp add: mutation_next_def loadCart_def)
  show "pending (mutation_next obs v) = pending v @ [(ApiService_getCart v, LoadCartHandler)]"
    by (simp add: mutation_next_def loadCart_def observer_next_effect)
  show "cartSubject (mutation_next obs v) = cartSubject v"
    by (simp add: mutation_next_def loadCart_def observer_next_effect)
  show "currentUserSubject (mutation_next obs v) = currentUserSubject v"
    by (simp add: mutation_next_def loadCart_def observer_next_effect)
  show "localStorage_currentUser (mutation_next obs v) = localStorage_currentUser v"
    by (simp add: mutation_next_def loadCart_def observer_next_effect)
qed

lemma mutation_error_effect:
  "\<exists>l m. trace (mutation_error obs e v) =
         trace v @ [ObserverError e, ConsoleError l e, SnackBar m ''Close'' 3000]"
  "pending (mutation_error obs e v) = pending v"
  "cartSubject (mutation_error obs e v) = cartSubject v"
  "currentUserSubject (mutation_error obs e v) = currentUserSubject v"
  "localStorage_currentUser (mutation_error obs e v) = localStorage_currentUser v"
proof -
  let ?u = "emit (ObserverError e) v"
  obtain l m where "trace (observer_error obs e ?u) =
      trace ?u @ [ConsoleError l e, SnackBar m ''Close'' 3000]"
    using observer_error_effect(1) by blast
  then show "\<exists>l m. trace (mutation_error obs e v) =
         trace v @ [ObserverError e, ConsoleError l e, SnackBar m ''Close'' 3000]"
    by (simp add: mutation_error_def)
  show "pending (mutation_error obs e v) = pending v"
    by (simp add: mutation_error_def observer_error_effect)
  show "cartSubject (mutation_error obs e v) = cartSubject v"
    by (simp add: mutation_error_def observer_error_effect)
  show "currentUserSubject (mutation_error obs e v) = currentUserSubject v"
    by (simp add: mutation_error_def observer_error_effect)
  show "localStorage_currentUser (mutation_error obs e v) = localStorage_currentUser v"
    by (simp add: mutation_error_def observer_error_effect)
qed

text \<open>
  A cart operation followed by the answer to its request, for any of the four requests
  \<open>q\<close>: what the client has done by the time the callbacks return.
\<close>

lemma subscribed_mutation:
  fixes w :: world
  defines "reload \<equiv> ApiService_getCart w"
  shows "\<exists>w2 m. answer_last (Success b) (http_subscribe q (CartMutationHandler obs) w) = Some w2 \<and>
          trace w2 = trace w @ [HttpSent q, HttpSent reload, ObserverNext,
                                SnackBar m ''Close'' 2000, ObserverComplete] \<and>
          pending w2 = pending w @ [(reload, LoadCartHandler)] \<and>
          getCurrentCart w2 = getCurrentCart w \<and>
          emitted_carts (trace w2) = emitted_carts (trace w)"
    and "\<exists>w3 l m. answer_last (Failure e) (http_subscribe q (CartMutationHandler obs) w) = Some w3 \<and>
          trace w3 = trace w @ [HttpSent q, ObserverError e, ConsoleError l e,
                                SnackBar m ''Close'' 3000] \<and>
          pending w3 = pending w \<and>
          getCurrentCart w3 = getCurrentCart w"
proof -
  let ?v = "emit (HttpSent q) w"
  have r: "ApiService_getCart ?v = reload"
    unfolding reload_def by (rule ApiService_getCart_cong) simp
  obtain m where "trace (mutation_next obs ?v) =
         trace ?v @ [HttpSent (ApiService_getCart ?v), ObserverNext,
                    SnackBar m ''Close'' 2000, ObserverComplete]"
    using mutation_next_effect(1) by blast
  then show "\<exists>w2 m. answer_last (Success b) (http_subscribe q (CartMutationHandler obs) w) = Some w2 \<and>
          trace w2 = trace w @ [HttpSent q, HttpSent reload, ObserverNext,
                                SnackBar m ''Close'' 2000, ObserverComplete] \<and>
          pending w2 = pending w @ [(reload, LoadCartHandler)] \<and>
          getCurrentCart w2 = getCurrentCart w \<and>
          emitted_carts (trace w2) = emitted_carts (trace w)"
    by (simp add: answer_last_subscribe mutation_next_effect r getCurrentCart_def)
  obtain l m where "trace (mutation_error obs e ?v) =
         trace ?v @ [ObserverError e, ConsoleError l e, SnackBar m ''Close'' 3000]"
    using mutation_error_effect(1) by blast
  then show "\<exists>w3 l m. answer_last (Failure e) (http_subscribe q (CartMutationHandler obs) w) = Some w3 \<and>
          trace w3 = trace w @ [HttpSent q, ObserverError e, ConsoleError l e,
                                SnackBar m ''Close'' 3000] \<and>
          pending w3 = pending w \<and>
          getCurrentCart w3 = getCurrentCart w"
    by (simp add: answer_last_subscribe mutation_error_effect getCurrentCart_def)
qed

section \<open>Cart operations and the reload\<close>

text \<open>
  C1, as the code has it. For each of \<^verbatim>\<open>addToCart\<close>, \<^verbatim>\<open>updateCartItem\<close>,
  \<^verbatim>\<open>removeFromCart\<close> and \<^verbatim>\<open>clearCart\<close> of the cart service: when the request of
  the operation is answered with success, the service sends exactly one reload request
  (\<^verbatim>\<open>GET /cart\<close>) and only then notifies the observer (next, then complete); the
  reload is not awaited, so at that moment the request is still in flight, no snapshot
  has been pushed and the published snapshot is the one from before. When the request
  fails, the observer gets the error and no reload request is sent.
\<close>

theorem mutation_sends_one_reload:
  assumes "(w1, q) \<in>
     {(CartService_addToCart productId qty obs w, ApiService_addToCart w productId qty),
      (CartService_updateCartItem productId qty obs w, ApiService_updateCartItem w productId qty),
      (CartService_removeFromCart productId obs w, ApiService_removeFromCart w productId),
      (CartService_clearCart obs w, ApiService_clearCart w)}"
  shows "(\<exists>w2 m. answer_last (Success b) w1 = Some w2 \<and>
            trace w2 = trace w @ [HttpSent q, HttpSent (ApiService_getCart w), ObserverNext,
                                  SnackBar m ''Close'' 2000, ObserverComplete] \<and>
            pending w2 = pending w @ [(ApiService_getCart w, LoadCartHandler)] \<and>
            getCurrentCart w2 = getCurrentCart w \<and>
            emitted_carts (trace w2) = emitted_carts (trace w)) \<and>
         (\<exists>w3 l m. answer_last (Failure e) w1 = Some w3 \<and>
            trace w3 = trace w @ [HttpSent q, ObserverError e, ConsoleError l e,
                                  SnackBar m ''Close'' 3000] \<and>
            pending w3 = pending w \<and>
            getCurrentCart w3 = getCurrentCart w)"
proof -
  have "w1 = http_subscribe q (CartMutationHandler obs) w"
    using assms
    by (auto simp: CartService_addToCart_def CartService_updateCartItem_def
        CartService_removeFromCart_def CartService_clearCart_def)
  then show ?thesis
    by (simp only: subscribed_mutation simp_thms)
qed

text \<open>The theorem at the removal of productA from the cart of the scenario.\<close>

theorem mutation_sends_one_reload_witness:
  "(CartService_removeFromCart 101 (RemoveItemObserver productA) scenario_world,
    ApiService_removeFromCart scenario_world 101) \<in>
     {(CartService_addToCart 101 1 (RemoveItemObserver productA) scenario_world,
         ApiService_addToCart scenario_world 101 1),
      (CartService_updateCartItem 101 1 (RemoveItemObserver productA) scenario_world,
         ApiService_updateCartItem scenario_world 101 1),
      (CartService_removeFromCart 101 (RemoveItemObserver productA) scenario_world,
         ApiService_removeFromCart scenario_world 101),
      (CartService_clearCart (RemoveItemObserver productA) scenario_world,
         ApiService_clearCart scenario_world)} \<and>
   (\<exists>w2 m. answer_last (Success (OtherBody JNull))
              (CartService_removeFromCart 101 (RemoveItemObserver productA) scenario_world)
            = Some w2 \<and>
      trace w2 = trace scenario_world @
        [HttpSent (ApiService_removeFromCart scenario_world 101),
         HttpSent (ApiService_getCart scenario_world), ObserverNext,
         SnackBar m ''Close'' 2000, ObserverComplete] \<and>
      getCurrentCart w2 = getCurrentCart scenario_world) \<and>
   (\<exists>w3. answer_last (Failure plain_error)
              (CartService_removeFromCart 101 (RemoveItemObserver productA) scenario_world)
            = Some w3 \<and>
      pending w3 = pending scenario_world)"
proof -
  let ?w1 = "CartService_removeFromCart 101 (RemoveItemObserver productA) scenario_world"
  let ?q = "ApiService_removeFromCart scenario_world 101"
  have h: "(?w1, ?q) \<in>
     {(CartService_addToCart 101 1 (RemoveItemObserver productA) scenario_world,
         ApiService_addToCart scenario_world 101 1),
      (CartService_updateCartItem 101 1 (RemoveItemObserver productA) scenario_world,
         ApiService_updateCartItem scenario_world 101 1),
      (?w1, ?q),
      (CartService_clearCart (RemoveItemObserver productA) scenario_world,
         ApiService_clearCart scenario_world)}"
    by simp
  from mutation_sends_one_reload [OF h, of "OtherBody JNull" plain_error] h
  show ?thesis by blast
qed

text \<open>
  Where the sentence of the spec fails: the observer of a successful add is notified
  and completed while the reload is still in flight and the snapshot is still the
  empty one; the reloaded cart is published only when the answer to the reload
  arrives, after the observer is done.
\<close>

theorem observer_resolved_before_reload_arrives:
  "map_option trace
     (run [AddToCart mug, Deliver 0 (Success (OtherBody JNull))] (initial_world None)) =
     Some [HttpSent (ApiService_addToCart (initial_world None) 5 1),
           HttpSent (ApiService_getCart (initial_world None)),
           ObserverNext, SnackBar ''Mug added to cart'' ''Close'' 2000, ObserverComplete] \<and>
   map_option getCurrentCart
     (run [AddToCart mug, Deliver 0 (Success (OtherBody JNull))] (initial_world None)) =
     Some empty_cart \<and>
   map_option (map snd \<circ> pending)
     (run [AddToCart mug, Deliver 0 (Success (OtherBody JNull))] (initial_world None)) =
     Some [LoadCartHandler] \<and>
   map_option trace
     (run [AddToCart mug, Deliver 0 (Success (OtherBody JNull)),
           Deliver 0 (Success (CartBody scenario_cart))] (initial_world None)) =
     Some [HttpSent (ApiService_addToCart (initial_world None) 5 1),
           HttpSent (ApiService_getCart (initial_world None)),
           ObserverNext, SnackBar ''Mug added to cart'' ''Close'' 2000, ObserverComplete,
           CartEmitted scenario_cart]"
  by (simp add: ProductList_addToCart_def CartService_addToCart_def mug_def
      deliver_def http_subscribe_def emit_def initial_world_def mutation_next_def
      loadCart_def loadCart_next_def getCurrentCart_def ApiService_getCart_def
      ApiService_addToCart_def getHeaders_def getCurrentUser_def)

section \<open>The totals of the published snapshots\<close>

lemma emitted_mutation_next:
  "emitted_carts (trace (mutation_next obs v)) = emitted_carts (trace v)"
proof -
  obtain m where "trace (mutation_next obs v) =
         trace v @ [HttpSent (ApiService_getCart v), ObserverNext,
                    SnackBar m ''Close'' 2000, ObserverComplete]"
    using mutation_next_effect(1) by blast
  then show ?thesis by simp
qed

lemma emitted_mutation_error:
  "emitted_carts (trace (mutation_error obs e v)) = emitted_carts (trace v)"
proof -
  obtain l m where "trace (mutation_error obs e v) =
         trace v @ [ObserverError e, ConsoleError l e, SnackBar m ''Close'' 3000]"
    using mutation_error_effect(1) by blast
  then show ?thesis by simp
qed

text \<open>
  The callbacks of every request other than the reload leave the snapshot alone and
  push nothing, whatever the answer.
\<close>

lemma handle_other_keeps_snapshot:
  assumes "handle h r v = Some w" and "h \<noteq> LoadCartHandler"
  shows "cartSubject w = cartSubject v \<and> emitted_carts (trace w) = emitted_carts (trace v)"
proof (cases r)
  case (Success b)
  with assms show ?thesis
    by (cases h; cases b)
      (auto simp: emitted_mutation_next mutation_next_effect login_next_def
        AuthService_login_def checkout_next_def ProductList_loadProducts_next_def
        AdminProducts_loadProducts_next_def ProductForm_onSubmit_next_def
        deleteProduct_next_def AdminProducts_loadProducts_def
        AdminOrders_loadOrders_next_def OrderHistory_loadOrders_next_def
        loadDashboardData_next_def Let_def)
next
  case (Failure e)
  with assms show ?thesis
    by (cases h)
      (auto simp: emitted_mutation_error mutation_error_effect login_error_def
        checkout_error_def ProductList_loadProducts_error_def
        AdminProducts_loadProducts_error_def ProductForm_onSubmit_error_def
        deleteProduct_error_def AdminOrders_loadOrders_error_def
        OrderHistory_loadOrders_error_def loadDashboardData_error_def)
qed

text \<open>So does a reload whose answer is a failure.\<close>

lemma handle_reload_failure_keeps_snapshot:
  assumes "handle LoadCartHandler (Failure e) v = Some w"
  shows "cartSubject w = cartSubject v \<and> emitted_carts (trace w) = emitted_carts (trace v)"
  using assms by (auto simp: loadCart_error_def)

lemma command_keeps_snapshot:
  assumes "perform a v = Some w" and "\<And>i r. a \<noteq> Deliver i r"
  shows "cartSubject w = cartSubject v \<and> emitted_carts (trace w) = emitted_carts (trace v)"
  using assms
  by (cases a)
    (auto simp: loadCart_def ProductList_addToCart_def CartService_addToCart_def
      updateQuantity_def removeItem_def CartService_removeFromCart_def
      CartService_updateCartItem_def clearCart_def CartService_clearCart_def
      LoginComponent_onSubmit_def AuthService_logout_def CheckoutComponent_onSubmit_def
      AdminOrders_updateOrderStatus_def ProductList_loadProducts_def
      OrderHistory_loadOrders_def loadDashboardData_def ProductForm_onSubmit_def
      AdminOrders_loadOrders_def AdminProducts_loadProducts_def deleteProduct_def Let_def
      split: if_splits option.splits)

lemma step_keeps_snapshot:
  assumes "perform a v = Some w"
    and "\<And>i c. a = Deliver i (Success (CartBody c)) \<Longrightarrow> snd (pending v ! i) \<noteq> LoadCartHandler"
  shows "cartSubject w = cartSubject v \<and> emitted_carts (trace w) = emitted_carts (trace v)"
proof (cases "\<exists>i r. a = Deliver i r")
  case False
  then show ?thesis
    using command_keeps_snapshot [OF assms(1)] by blast
next
  case True
  then obtain i r where a: "a = Deliver i r"
    by blast
  let ?v = "v\<lparr>pending := take i (pending v) @ drop (Suc i) (pending v)\<rparr>"
  let ?h = "snd (pending v ! i)"
  from assms(1) a have h: "handle ?h r ?v = Some w"
    by (simp add: deliver_def split: if_splits)
  show ?thesis
  proof (cases "?h = LoadCartHandler")
    case False
    from handle_other_keeps_snapshot [OF h False] show ?thesis
      by simp
  next
    case True
    show ?thesis
    proof (cases r)
      case (Failure e)
      with h True have "handle LoadCartHandler (Failure e) ?v = Some w"
        by simp
      from handle_reload_failure_keeps_snapshot [OF this] show ?thesis
        by simp
    next
      case (Success b)
      with h True assms(2) a show ?thesis
        by (cases b) auto
    qed
  qed
qed

text \<open>
  C2. Every snapshot the cart service publishes is either the initial one, whose item
  count and total amount are 0 over no items, or the cart of a reload answer, taken
  over as it is: when the answer to a reload request is the cart \<open>c\<close>, the snapshot
  becomes exactly \<open>c\<close> and exactly \<open>c\<close> is pushed to the subscribers, so if \<open>c\<close>
  satisfies the derivation of the server, the published snapshot has an item count equal
  to the sum of the quantities of its items and a total amount equal to the sum of
  the item subtotals. No other step of the client (a command, or the answer to any
  other request or a failed reload) changes the snapshot or pushes one.
\<close>

theorem published_snapshot_is_reload_answer:
  "cart_derived (getCurrentCart (initial_world stored)) \<and>
   emitted_carts (trace (initial_world stored)) = [] \<and>
   (i < length (pending w) \<and> snd (pending w ! i) = LoadCartHandler \<longrightarrow>
      (\<exists>w'. deliver i (Success (CartBody c)) w = Some w' \<and>
            getCurrentCart w' = c \<and>
            emitted_carts (trace w') = emitted_carts (trace w) @ [c] \<and>
            (cart_derived c \<longrightarrow>
               item_count (getCurrentCart w') =
                 sum_list (map quantity (items (getCurrentCart w'))) \<and>
               total_amount (getCurrentCart w') =
                 sum_list (map subtotal (items (getCurrentCart w')))))) \<and>
   (perform a v = Some v' \<and>
    (\<forall>j d. a = Deliver j (Success (CartBody d)) \<longrightarrow> snd (pending v ! j) \<noteq> LoadCartHandler)
      \<longrightarrow> getCurrentCart v' = getCurrentCart v \<and>
          emitted_carts (trace v') = emitted_carts (trace v))"
proof -
  have init: "cart_derived (getCurrentCart (initial_world stored)) \<and>
      emitted_carts (trace (initial_world stored)) = []"
    by (simp add: getCurrentCart_def initial_world_def empty_cart_def cart_derived_def)
  have reload: "i < length (pending w) \<and> snd (pending w ! i) = LoadCartHandler \<longrightarrow>
      (\<exists>w'. deliver i (Success (CartBody c)) w = Some w' \<and>
            getCurrentCart w' = c \<and>
            emitted_carts (trace w') = emitted_carts (trace w) @ [c] \<and>
            (cart_derived c \<longrightarrow>
               item_count (getCurrentCart w') =
                 sum_list (map quantity (items (getCurrentCart w'))) \<and>
               total_amount (getCurrentCart w') =
                 sum_list (map subtotal (items (getCurrentCart w')))))"
    by (simp add: deliver_def loadCart_next_def getCurrentCart_def cart_derived_def)
  have frame: "perform a v = Some v' \<and>
    (\<forall>j d. a = Deliver j (Success (CartBody d)) \<longrightarrow> snd (pending v ! j) \<noteq> LoadCartHandler)
      \<longrightarrow> getCurrentCart v' = getCurrentCart v \<and>
          emitted_carts (trace v') = emitted_carts (trace v)"
    using step_keeps_snapshot [of a v v'] by (simp add: getCurrentCart_def)
  from init reload frame show ?thesis by blast
qed

text \<open>
  The theorem at the first load of the cart, answered with the cart of the scenario
  (item count 3, total amount 25), and at the removal command, which by itself
  publishes nothing.
\<close>

theorem published_snapshot_is_reload_answer_witness:
  "0 < length (pending (loadCart (initial_world None))) \<and>
   snd (pending (loadCart (initial_world None)) ! 0) = LoadCartHandler \<and>
   cart_derived scenario_cart \<and>
   (\<exists>w'. deliver 0 (Success (CartBody scenario_cart)) (loadCart (initial_world None)) = Some w' \<and>
         getCurrentCart w' = scenario_cart \<and>
         emitted_carts (trace w') = [scenario_cart] \<and>
         item_count (getCurrentCart w') = 3 \<and>
         sum_list (map quantity (items (getCurrentCart w'))) = 3 \<and>
         total_amount (getCurrentCart w') = 25 \<and>
         sum_list (map subtotal (items (getCurrentCart w'))) = 25) \<and>
   perform (RemoveItem productA) scenario_world = Some (removeItem productA scenario_world) \<and>
   getCurrentCart (removeItem productA scenario_world) = scenario_cart \<and>
   emitted_carts (trace (removeItem productA scenario_world)) = []"
proof -
  let ?w = "loadCart (initial_world None)"
  have h1: "0 < length (pending ?w)"
    by (simp add: loadCart_def)
  have h2: "snd (pending ?w ! 0) = LoadCartHandler"
    by (simp add: loadCart_def initial_world_def)
  have d: "cart_derived scenario_cart"
    by (simp add: cart_derived_def scenario_cart_def productA_def productB_def)
  have p: "perform (RemoveItem productA) scenario_world = Some (removeItem productA scenario_world)"
    by simp
  have np: "\<forall>j d. RemoveItem productA = Deliver j (Success (CartBody d)) \<longrightarrow>
      snd (pending scenario_world ! j) \<noteq> LoadCartHandler"
    by simp
  note inst = published_snapshot_is_reload_answer
    [of None 0 ?w scenario_cart "RemoveItem productA" scenario_world
      "removeItem productA scenario_world"]
  from inst h1 h2 d obtain w' where w':
      "deliver 0 (Success (CartBody scenario_cart)) ?w = Some w'"
      "getCurrentCart w' = scenario_cart"
      "emitted_carts (trace w') = emitted_carts (trace ?w) @ [scenario_cart]"
      "item_count (getCurrentCart w') = sum_list (map quantity (items (getCurrentCart w')))"
      "total_amount (getCurrentCart w') = sum_list (map subtotal (items (getCurrentCart w')))"
    by blast
  have e: "emitted_carts (trace w') = [scenario_cart]"
    using w'(3) by (simp add: loadCart_def initial_world_def)
  have n: "item_count (getCurrentCart w') = 3 \<and>
      sum_list (map quantity (items (getCurrentCart w'))) = 3 \<and>
      total_amount (getCurrentCart w') = 25 \<and>
      sum_list (map subtotal (items (getCurrentCart w'))) = 25"
    using w'(4,5) by (simp add: w'(2) scenario_cart_def)
  from inst p np have f: "getCurrentCart (removeItem productA scenario_world) =
        getCurrentCart scenario_world \<and>
      emitted_carts (trace (removeItem productA scenario_world)) =
        emitted_carts (trace scenario_world)"
    by blast
  have s: "getCurrentCart scenario_world = scenario_cart \<and>
      emitted_carts (trace scenario_world) = []"
    by (simp add: getCurrentCart_def scenario_world_def initial_world_def)
  from h1 h2 d w'(1,2) e n p f s show ?thesis
    by auto
qed

section \<open>Identity headers\<close>




section \<open>A quantity below one\<close>

text \<open>
  C4. Updating the quantity of a cart item to 0, or to any value below 1, is the
  removal of the item: the update command does exactly what the remove command does,
  so the snapshot that results is the one removal produces. In the scenario of the
  spec (productA, 2 at 10, and productB, 1 at 5), setting the quantity of productA
  to 0 and letting the backend answer leaves a snapshot with total amount 5 and item
  count 1.
\<close>

theorem update_below_one_is_removal:
  "(newQuantity < 1 \<longrightarrow>
      updateQuantity item newQuantity w = removeItem item w \<and>
      settled_cart n s (updateQuantity item newQuantity w) = settled_cart n s (removeItem item w)) \<and>
   settled_cart 2 scenario_cart (updateQuantity productA 0 scenario_world) =
     Some \<lparr>user_id = ''user1'', items = [productB], total_amount = 5, item_count = 1\<rparr> \<and>
   settled_cart 2 scenario_cart (removeItem productA scenario_world) =
     Some \<lparr>user_id = ''user1'', items = [productB], total_amount = 5, item_count = 1\<rparr>"
proof -
  have eq: "newQuantity < 1 \<Longrightarrow> updateQuantity item newQuantity w = removeItem item w"
    by (simp add: updateQuantity_def)
  have upd: "updateQuantity productA 0 scenario_world = removeItem productA scenario_world"
    by (simp add: updateQuantity_def)
  have rem: "settled_cart 2 scenario_cart (removeItem productA scenario_world) =
     Some \<lparr>user_id = ''user1'', items = [productB], total_amount = 5, item_count = 1\<rparr>"
    by (simp add: settled_cart_def removeItem_def CartService_removeFromCart_def
        ApiService_removeFromCart_def scenario_world_def initial_world_def http_subscribe_def
        emit_def serve_def baseUrl_def json_field_def server_remove_def derive_cart_def
        deliver_def mutation_next_def loadCart_def ApiService_getCart_def getHeaders_def
        getCurrentUser_def loadCart_next_def getCurrentCart_def scenario_cart_def
        productA_def productB_def numeral_2_eq_2)
  show ?thesis using eq upd rem by simp
qed

text \<open>The theorem at the scenario: productA, the quantity 0.\<close>

theorem update_below_one_is_removal_witness:
  "(0::int) < 1 \<and>
   updateQuantity productA 0 scenario_world = removeItem productA scenario_world \<and>
   settled_cart 2 scenario_cart (updateQuantity productA 0 scenario_world) =
     settled_cart 2 scenario_cart (removeItem productA scenario_world) \<and>
   map_option total_amount
     (settled_cart 2 scenario_cart (updateQuantity productA 0 scenario_world)) = Some 5 \<and>
   map_option item_count
     (settled_cart 2 scenario_cart (updateQuantity productA 0 scenario_world)) = Some 1"
proof -
  have h: "(0::int) < 1"
    by simp
  from update_below_one_is_removal [of 0 productA scenario_world 2 scenario_cart] h
  show ?thesis by simp
qed

section \<open>The stock guard of the product list\<close>

text \<open>
  C5. When the add-to-cart command is issued for a product whose stock is at most 0,
  the product list sends no request and shows the notification
  \<^verbatim>\<open>Product is out of stock\<close>; when the stock is positive it sends the cart-add
  request (\<^verbatim>\<open>POST /cart/add\<close> for one unit of the product).
\<close>

theorem addToCart_stock_guard:
  "(p_stock product \<le> 0 \<longrightarrow>
      trace (ProductList_addToCart product w) =
        trace w @ [SnackBar ''Product is out of stock'' ''Close'' 3000] \<and>
      sent_requests (trace (ProductList_addToCart product w)) = sent_requests (trace w) \<and>
      pending (ProductList_addToCart product w) = pending w) \<and>
   (p_stock product > 0 \<longrightarrow>
      (\<exists>r. trace (ProductList_addToCart product w) = trace w @ [HttpSent r] \<and>
           pending (ProductList_addToCart product w) =
             pending w @ [(r, CartMutationHandler (AddToCartObserver product))] \<and>
           req_method r = POST \<and> req_url r = ''http://localhost:5000/api/cart/add'' \<and>
           req_body r = Some (JObj [(''product_id'', JNum (of_int (p_id product))),
                                    (''quantity'', JNum 1)])))"
  by (simp add: ProductList_addToCart_def CartService_addToCart_def ApiService_addToCart_def
      baseUrl_def)

theorem addToCart_stock_guard_witness:
  "p_stock sold_out_mug \<le> 0 \<and>
   notifications (trace (ProductList_addToCart sold_out_mug (initial_world None))) =
     [''Product is out of stock''] \<and>
   sent_requests (trace (ProductList_addToCart sold_out_mug (initial_world None))) = [] \<and>
   p_stock mug > 0 \<and>
   (\<exists>r. sent_requests (trace (ProductList_addToCart mug (initial_world None))) = [r] \<and>
        req_url r = ''http://localhost:5000/api/cart/add'')"
proof -
  have h0: "p_stock sold_out_mug \<le> 0"
    by (simp add: sold_out_mug_def)
  have h1: "p_stock mug > 0"
    by (simp add: mug_def)
  have "trace (ProductList_addToCart sold_out_mug (initial_world None)) =
      trace (initial_world None) @ [SnackBar ''Product is out of stock'' ''Close'' 3000]"
    using addToCart_stock_guard [of sold_out_mug "initial_world None"] h0 by blast
  then have a: "notifications (trace (ProductList_addToCart sold_out_mug (initial_world None))) =
       [''Product is out of stock'']"
     and b: "sent_requests (trace (ProductList_addToCart sold_out_mug (initial_world None))) = []"
    by (simp_all add: initial_world_def)
  obtain r where "trace (ProductList_addToCart mug (initial_world None)) =
      trace (initial_world None) @ [HttpSent r]"
      and "req_url r = ''http://localhost:5000/api/cart/add''"
    using addToCart_stock_guard [of mug "initial_world None"] h1 by blast
  then have "sent_requests (trace (ProductList_addToCart mug (initial_world None))) = [r] \<and>
      req_url r = ''http://localhost:5000/api/cart/add''"
    by (simp add: initial_world_def)
  with h0 h1 a b show ?thesis by blast
qed

section \<open>Login\<close>

text \<open>
  C6. After a valid login form is submitted: an answer carrying a user with role
  admin stores the identity (in the session and in the persistent storage) and
  navigates to \<^verbatim>\<open>/admin\<close>; one with role user stores it and navigates to
  \<^verbatim>\<open>/user\<close>; a failed login leaves the session and the storage as they were, does
  not navigate and shows the failure notification.
\<close>

theorem login_outcomes:
  "(u_role u = RoleAdmin \<longrightarrow>
      (\<exists>w'. answer_last (Success (LoginBody u)) (LoginComponent_onSubmit True name pw w) = Some w' \<and>
         currentUserSubject w' = Some u \<and> localStorage_currentUser w' = Some u \<and>
         trace w' = trace w @ [HttpSent (ApiService_login w name pw), Navigate ''/admin'',
                               SnackBar ''Login successful!'' ''Close'' 3000])) \<and>
   (u_role u = RoleUser \<longrightarrow>
      (\<exists>w'. answer_last (Success (LoginBody u)) (LoginComponent_onSubmit True name pw w) = Some w' \<and>
         currentUserSubject w' = Some u \<and> localStorage_currentUser w' = Some u \<and>
         trace w' = trace w @ [HttpSent (ApiService_login w name pw), Navigate ''/user'',
                               SnackBar ''Login successful!'' ''Close'' 3000])) \<and>
   (\<exists>w'. answer_last (Failure e) (LoginComponent_onSubmit True name pw w) = Some w' \<and>
         currentUserSubject w' = currentUserSubject w \<and>
         localStorage_currentUser w' = localStorage_currentUser w \<and>
         trace w' = trace w @ [HttpSent (ApiService_login w name pw),
                 SnackBar ''Login failed. Please check your credentials.'' ''Close'' 3000])"
  by (simp add: answer_last_def deliver_def LoginComponent_onSubmit_def login_next_def
      login_error_def AuthService_login_def ApiService_login_def)

theorem login_outcomes_witness:
  "u_role root_admin = RoleAdmin \<and>
   (\<exists>w'. answer_last (Success (LoginBody root_admin))
            (LoginComponent_onSubmit True ''root'' ''secret'' (initial_world None)) = Some w' \<and>
         currentUserSubject w' = Some root_admin \<and>
         trace w' = trace (initial_world None) @
           [HttpSent (ApiService_login (initial_world None) ''root'' ''secret''),
            Navigate ''/admin'', SnackBar ''Login successful!'' ''Close'' 3000]) \<and>
   u_role alice = RoleUser \<and>
   (\<exists>w'. answer_last (Success (LoginBody alice))
            (LoginComponent_onSubmit True ''alice'' ''secret'' (initial_world None)) = Some w' \<and>
         currentUserSubject w' = Some alice \<and>
         trace w' = trace (initial_world None) @
           [HttpSent (ApiService_login (initial_world None) ''alice'' ''secret''),
            Navigate ''/user'', SnackBar ''Login successful!'' ''Close'' 3000])"
proof -
  have h0: "u_role root_admin = RoleAdmin"
    by (simp add: root_admin_def)
  have h1: "u_role alice = RoleUser"
    by (simp add: alice_def)
  from login_outcomes [of root_admin "''root''" "''secret''" "initial_world None" plain_error]
    login_outcomes [of alice "''alice''" "''secret''" "initial_world None" plain_error] h0 h1
  show ?thesis by blast
qed

section \<open>Error messages\<close>




section \<open>The status command of the admin order list\<close>

text \<open>
  C8. The update-status command of the admin order list should dispatch the
  update-status operation of the client (\<^verbatim>\<open>PUT /admin/orders/:id/status\<close>) and
  report its outcome. The code does not: for order 7 and status \<^verbatim>\<open>shipped\<close>, with an
  administrator logged in, no request is sent, none is in flight afterwards, and the
  notification \<^verbatim>\<open>Order #7 status updated to shipped\<close> is shown at once.
\<close>

theorem updateOrderStatus_sends_nothing:
  "sent_requests (trace (AdminOrders_updateOrderStatus order7 ''shipped''
      (initial_world (Some root_admin)))) = [] \<and>
   pending (AdminOrders_updateOrderStatus order7 ''shipped''
      (initial_world (Some root_admin))) = [] \<and>
   notifications (trace (AdminOrders_updateOrderStatus order7 ''shipped''
      (initial_world (Some root_admin)))) = [''Order #7 status updated to shipped'']"
  by (simp add: AdminOrders_updateOrderStatus_def initial_world_def order7_def show_int_def
      digits.simps)

section \<open>A reload that fails\<close>

text \<open>
  C9. When the answer to a reload request is a failure, the published snapshot is
  unchanged: \<^verbatim>\<open>getCurrentCart\<close> returns what it returned before, nothing is pushed to
  the subscribers, the only effect is one \<^verbatim>\<open>console.error\<close>, no notification is
  shown, and no request is sent again.
\<close>

theorem reload_failure_keeps_snapshot:
  assumes "i < length (pending w)" and "snd (pending w ! i) = LoadCartHandler"
  shows "\<exists>w'. deliver i (Failure e) w = Some w' \<and>
           getCurrentCart w' = getCurrentCart w \<and>
           trace w' = trace w @ [ConsoleError ''Error loading cart:'' e] \<and>
           emitted_carts (trace w') = emitted_carts (trace w) \<and>
           notifications (trace w') = notifications (trace w) \<and>
           sent_requests (trace w') = sent_requests (trace w) \<and>
           pending w' = take i (pending w) @ drop (Suc i) (pending w)"
  using assms by (simp add: deliver_def loadCart_error_def getCurrentCart_def)

theorem reload_failure_keeps_snapshot_witness:
  "0 < length (pending (loadCart (initial_world None))) \<and>
   snd (pending (loadCart (initial_world None)) ! 0) = LoadCartHandler \<and>
   (\<exists>w'. deliver 0 (Failure plain_error) (loadCart (initial_world None)) = Some w' \<and>
        getCurrentCart w' = empty_cart \<and>
        emitted_carts (trace w') = [] \<and>
        notifications (trace w') = [] \<and>
        pending w' = [])"
proof -
  let ?w = "loadCart (initial_world None)"
  have h1: "0 < length (pending ?w)"
    by (simp add: loadCart_def)
  have h2: "snd (pending ?w ! 0) = LoadCartHandler"
    by (simp add: loadCart_def initial_world_def)
  obtain w' where w': "deliver 0 (Failure plain_error) ?w = Some w'"
      "getCurrentCart w' = getCurrentCart ?w"
      "emitted_carts (trace w') = emitted_carts (trace ?w)"
      "notifications (trace w') = notifications (trace ?w)"
      "pending w' = take 0 (pending ?w) @ drop (Suc 0) (pending ?w)"
    using reload_failure_keeps_snapshot [OF h1 h2, of plain_error] by blast
  have "getCurrentCart w' = empty_cart"
    using w'(2) by (simp add: getCurrentCart_def loadCart_def initial_world_def)
  moreover have "emitted_carts (trace w') = []"
    using w'(3) by (simp add: loadCart_def initial_world_def)
  moreover have "notifications (trace w') = []"
    using w'(4) by (simp add: loadCart_def initial_world_def)
  moreover have "pending w' = []"
    using w'(5) by (simp add: loadCart_def initial_world_def)
  ultimately show ?thesis using h1 h2 w'(1) by blast
qed

section \<open>The stock limit of the cart view\<close>

text \<open>
  C10, as the code has it. For every cart item, requesting an updated quantity that is
  at least 1 and greater than the available stock of the item sends no request and
  changes nothing but the list of notifications: the only effect is the stock-limit
  notification \<^verbatim>\<open>Only n items available\<close>; the snapshot, its items and the
  requests in flight are as before.
\<close>

theorem over_stock_update_rejected:
  assumes "1 \<le> newQuantity" and "newQuantity > available_stock item"
  shows "updateQuantity item newQuantity w =
           w\<lparr>trace := trace w @
               [SnackBar (''Only '' @ show_int (available_stock item) @ '' items available'')
                  ''Close'' 3000]\<rparr> \<and>
         sent_requests (trace (updateQuantity item newQuantity w)) = sent_requests (trace w) \<and>
         pending (updateQuantity item newQuantity w) = pending w \<and>
         getCurrentCart (updateQuantity item newQuantity w) = getCurrentCart w \<and>
         emitted_carts (trace (updateQuantity item newQuantity w)) = emitted_carts (trace w) \<and>
         notifications (trace (updateQuantity item newQuantity w)) =
           notifications (trace w) @
             [''Only '' @ show_int (available_stock item) @ '' items available'']"
  using assms by (simp add: updateQuantity_def emit_def getCurrentCart_def)

text \<open>The theorem at productB of the scenario (3 in stock) and a quantity of 4.\<close>

theorem over_stock_update_rejected_witness:
  "(1::int) \<le> 4 \<and> 4 > available_stock productB \<and>
   sent_requests (trace (updateQuantity productB 4 scenario_world)) = [] \<and>
   pending (updateQuantity productB 4 scenario_world) = [] \<and>
   getCurrentCart (updateQuantity productB 4 scenario_world) = scenario_cart \<and>
   notifications (trace (updateQuantity productB 4 scenario_world)) =
     [''Only 3 items available'']"
proof -
  have h0: "(1::int) \<le> 4"
    by simp
  have h1: "4 > available_stock productB"
    by (simp add: productB_def)
  have s: "show_int (available_stock productB) = ''3''"
    by (simp add: productB_def show_int_def digits.simps)
  from over_stock_update_rejected [OF h0 h1, of scenario_world] h0 h1 s
  show ?thesis
    by (simp add: scenario_world_def initial_world_def getCurrentCart_def)
qed

text \<open>
  Where the sentence fails without the lower bound: the check for a quantity below 1
  comes first, so for an item whose reported stock is negative a quantity of 0 is
  above the stock and yet is dispatched as a removal, with no stock-limit notification.
\<close>

theorem below_one_over_stock_is_removal:
  "0 > available_stock oversold \<and>
   notifications (trace (updateQuantity oversold 0 scenario_world)) = [] \<and>
   sent_requests (trace (updateQuantity oversold 0 scenario_world)) =
     [ApiService_removeFromCart scenario_world 101] \<and>
   map snd (pending (updateQuantity oversold 0 scenario_world)) =
     [CartMutationHandler (RemoveItemObserver oversold)]"
  by (simp add: oversold_def productA_def updateQuantity_def removeItem_def
      CartService_removeFromCart_def scenario_world_def initial_world_def
      ApiService_removeFromCart_def getHeaders_def getCurrentUser_def)

end
